theory Spec2Isabelle
  imports Main "HOL-Library.Word"
begin

section \<open>Decoding the opaque data of a Triton kernel call\<close>

text \<open>
  A shallow embedding of \<^verbatim>\<open>torch_xla/csrc/triton/triton_utils.cpp\<close>: the function
  \<^verbatim>\<open>ZlibUncompress\<close> with its buffer-growing retry loop, and the two accessors
  \<^verbatim>\<open>GetTritonKernelCallName\<close> and \<^verbatim>\<open>GetTritonKernelCallSerializedMetadata\<close>.
\<close>

subsection \<open>Data\<close>

text \<open>
  A \<^verbatim>\<open>std::string\<close> and an \<^verbatim>\<open>absl::string_view\<close> are sequences of bytes. zlib's
  \<^verbatim>\<open>uLongf\<close> is \<^verbatim>\<open>unsigned long\<close>, 64 bits wide on the LP64 platforms the CUDA build
  targets, as is \<^verbatim>\<open>size_t\<close>: arithmetic on it wraps around.
\<close>

type_synonym byte = "8 word"
type_synonym bytes = "byte list"
type_synonym uLongf = "64 word"

text \<open>
  \<^verbatim>\<open>absl::Status\<close> carries a canonical code and a message; \<^verbatim>\<open>absl::StatusOr<T>\<close> is
  the sum of a non-OK status and a value. \<^verbatim>\<open>absl::InvalidArgumentError(m)\<close> builds the status
  with code \<^verbatim>\<open>kInvalidArgument\<close> and message \<^verbatim>\<open>m\<close>.
\<close>

datatype StatusCode = kOk | kInvalidArgument

datatype Status = Status (code: StatusCode) (message: string)

type_synonym 'a StatusOr = "Status + 'a"

definition InvalidArgumentError :: "string \<Rightarrow> Status" where
  "InvalidArgumentError m = Status kInvalidArgument m"

text \<open>The return codes of zlib that the source names (\<^verbatim>\<open>zlib.h\<close>).\<close>

definition Z_OK :: int where
  "Z_OK = 0"

definition Z_BUF_ERROR :: int where
  "Z_BUF_ERROR = - 5"

text \<open>
  zlib's \<^verbatim>\<open>uncompress(dest, &destLen, source, sourceLen)\<close> is an external function and a
  parameter of the model. Called with a destination buffer of capacity \<^verbatim>\<open>destLen\<close> and the
  source bytes (which carry their length, \<^verbatim>\<open>sourceLen\<close>), it yields its return code, the
  value it leaves in \<^verbatim>\<open>destLen\<close>, and the bytes it has stored at the start of the
  destination buffer.
\<close>

type_synonym codec = "uLongf \<Rightarrow> bytes \<Rightarrow> int \<times> uLongf \<times> bytes"

text \<open>
  \<^verbatim>\<open>std::string::resize(n)\<close>: cut to \<^verbatim>\<open>n\<close> bytes, or pad with zero bytes up to \<^verbatim>\<open>n\<close>.
  Allocation is taken to succeed (an allocation failure is a C++ exception, outside the
  status values the functions return).
\<close>

definition resize :: "bytes \<Rightarrow> nat \<Rightarrow> bytes" where
  "resize data n = take n data @ replicate (n - length data) 0"

text \<open>
  The effect on the buffer of the codec storing \<open>written\<close> at its start: the buffer keeps
  its size, and the bytes behind those written keep their values. A codec does not store
  beyond the capacity it was given; what would lie beyond is dropped.
\<close>

definition store :: "bytes \<Rightarrow> bytes \<Rightarrow> bytes" where
  "store written data = take (length data) (written @ drop (length written) data)"

subsection \<open>ZlibUncompress\<close>

text \<open>
  The \<^verbatim>\<open>while (true)\<close> loop, as a function of the variables \<^verbatim>\<open>data\<close> and \<^verbatim>\<open>dest_len\<close>
  at the top of an iteration. The loop has no bound, so the function is partial: \<open>None\<close>
  stands for a loop that never exits.
\<close>

partial_function (option) ZlibUncompress_loop ::
  "codec \<Rightarrow> bytes \<Rightarrow> bytes \<Rightarrow> uLongf \<Rightarrow> bytes StatusOr option" where
  [code]: "ZlibUncompress_loop uncompress compressed data dest_len =
     (let data1 = resize data (unat dest_len) in
      case uncompress dest_len compressed of
        (ret, dest_len1, written) \<Rightarrow>
          let data2 = store written data1 in
          if ret = Z_OK then Some (Inr (resize data2 (unat dest_len1)))
          else if ret = Z_BUF_ERROR then
            ZlibUncompress_loop uncompress compressed data2 (dest_len1 * 2)
          else Some (Inl (InvalidArgumentError ''Failed to uncompress opaque data.'')))"

definition ZlibUncompress :: "codec \<Rightarrow> bytes \<Rightarrow> bytes StatusOr option" where
  "ZlibUncompress uncompress compressed =
     ZlibUncompress_loop uncompress compressed [] (5 * of_nat (length compressed))"

text \<open>
  The state of the loop at the top of its iterations: \<open>loop_state uncompress compressed k\<close>
  holds \<^verbatim>\<open>data\<close> and \<^verbatim>\<open>dest_len\<close> after \<open>k\<close> retries, and is \<open>None\<close> once the loop has
  been left.
\<close>

primrec loop_state :: "codec \<Rightarrow> bytes \<Rightarrow> nat \<Rightarrow> (bytes \<times> uLongf) option" where
  "loop_state uncompress compressed 0 = Some ([], 5 * of_nat (length compressed))"
| "loop_state uncompress compressed (Suc k) =
     (case loop_state uncompress compressed k of
        None \<Rightarrow> None
      | Some (data, dest_len) \<Rightarrow>
          (case uncompress dest_len compressed of
             (ret, dest_len1, written) \<Rightarrow>
               if ret = Z_OK then None
               else if ret = Z_BUF_ERROR then
                 Some (store written (resize data (unat dest_len)), dest_len1 * 2)
               else None))"

subsection \<open>The accessors\<close>

text \<open>
  The message \<^verbatim>\<open>jax_triton::TritonAnyKernelCall\<close> is generated from a protocol-buffer schema;
  the accessors read its fields \<^verbatim>\<open>name\<close> and \<^verbatim>\<open>metadata\<close>. Its parser
  \<^verbatim>\<open>ParseFromString\<close> is a parameter of the model: it yields the success flag and the
  message it has filled.
\<close>

record TritonAnyKernelCall =
  name :: bytes
  metadata :: bytes

type_synonym parser = "bytes \<Rightarrow> bool \<times> TritonAnyKernelCall"

text \<open>
  Modelled from the spec: the macro \<^verbatim>\<open>JAX_ASSIGN_OR_RETURN\<close> of
  \<^verbatim>\<open>torch_xla/csrc/triton/gpu_kernel_helpers.h\<close>, which is not among the sources. The spec
  has the accessors propagate "any error from either stage unchanged (no wrapping that would
  hide the root cause)": a non-OK status of the expression is returned as it is, and a value
  is bound for the rest of the function.
\<close>

definition JAX_ASSIGN_OR_RETURN :: "'a StatusOr \<Rightarrow> ('a \<Rightarrow> 'b StatusOr) \<Rightarrow> 'b StatusOr" where
  "JAX_ASSIGN_OR_RETURN expr rest = (case expr of Inl status \<Rightarrow> Inl status | Inr lhs \<Rightarrow> rest lhs)"

definition GetTritonKernelCallName :: "codec \<Rightarrow> parser \<Rightarrow> bytes \<Rightarrow> bytes StatusOr option" where
  "GetTritonKernelCallName uncompress ParseFromString opaque =
     map_option
       (\<lambda>r. JAX_ASSIGN_OR_RETURN r (\<lambda>serialized.
          case ParseFromString serialized of
            (ok, proto) \<Rightarrow>
              if \<not> ok then Inl (InvalidArgumentError ''Failed to parse serialized data.'')
              else Inr (name proto)))
       (ZlibUncompress uncompress opaque)"

definition GetTritonKernelCallSerializedMetadata ::
  "codec \<Rightarrow> parser \<Rightarrow> bytes \<Rightarrow> bytes StatusOr option" where
  "GetTritonKernelCallSerializedMetadata uncompress ParseFromString opaque =
     map_option
       (\<lambda>r. JAX_ASSIGN_OR_RETURN r (\<lambda>serialized.
          case ParseFromString serialized of
            (ok, proto) \<Rightarrow>
              if \<not> ok then Inl (InvalidArgumentError ''Failed to parse serialized data.'')
              else Inr (metadata proto)))
       (ZlibUncompress uncompress opaque)"

subsection \<open>What a codec promises\<close>

text \<open>
  The contract of \<^verbatim>\<open>uncompress\<close>, as \<^verbatim>\<open>zlib.h\<close> documents it, for a source that is a valid
  stream of the output \<open>out\<close> and a buffer of at least one byte: \<^verbatim>\<open>Z_OK\<close> with the output
  and its length when the buffer holds the output, \<^verbatim>\<open>Z_BUF_ERROR\<close> with \<^verbatim>\<open>destLen\<close>
  untouched when it does not. Nothing is said of a buffer of 0 bytes, for which zlib
  answers \<^verbatim>\<open>Z_OK\<close> or \<^verbatim>\<open>Z_DATA_ERROR\<close>.
\<close>

definition decodes_to :: "codec \<Rightarrow> bytes \<Rightarrow> bytes \<Rightarrow> bool" where
  "decodes_to uncompress source out \<longleftrightarrow>
     (\<forall>dest_len. dest_len \<noteq> 0 \<longrightarrow>
        (if length out \<le> unat dest_len
         then uncompress dest_len source = (Z_OK, of_nat (length out), out)
         else fst (uncompress dest_len source) = Z_BUF_ERROR \<and>
              fst (snd (uncompress dest_len source)) = dest_len))"

text \<open>A source that the codec refuses whatever the size of the buffer.\<close>

definition rejects :: "codec \<Rightarrow> bytes \<Rightarrow> bool" where
  "rejects uncompress source \<longleftrightarrow>
     (\<forall>dest_len. fst (uncompress dest_len source) \<noteq> Z_OK \<and>
                 fst (uncompress dest_len source) \<noteq> Z_BUF_ERROR)"

text \<open>
  A source that is cut off or corrupt after some output: the codec reports a failure for
  every buffer of at least \<open>need\<close> bytes, and \<^verbatim>\<open>Z_BUF_ERROR\<close>, with \<^verbatim>\<open>destLen\<close> untouched,
  for a smaller buffer of at least one byte, which the output before the defect fills.
\<close>

definition refuses_from :: "codec \<Rightarrow> bytes \<Rightarrow> nat \<Rightarrow> bool" where
  "refuses_from uncompress source need \<longleftrightarrow>
     (\<forall>dest_len. dest_len \<noteq> 0 \<longrightarrow>
        (if need \<le> unat dest_len
         then fst (uncompress dest_len source) \<noteq> Z_OK \<and>
              fst (uncompress dest_len source) \<noteq> Z_BUF_ERROR
         else fst (uncompress dest_len source) = Z_BUF_ERROR \<and>
              fst (snd (uncompress dest_len source)) = dest_len))"

subsection \<open>A run-length codec and a length-prefixed parser, for concrete runs\<close>

text \<open>
  zlib and the protocol-buffer runtime are external. To run the model on concrete inputs
  the parameters are instantiated with two small stand-ins that honour the same calling
  conventions. The codec reads a magic byte \<open>0x78\<close> followed by pairs of a count and a
  byte, and reports \<^verbatim>\<open>Z_BUF_ERROR\<close> when the expansion does not fit a buffer of at least
  one byte, and \<^verbatim>\<open>Z_DATA_ERROR\<close> (\<open>-3\<close>) on any other source; as zlib does, it also answers
  \<^verbatim>\<open>Z_DATA_ERROR\<close>, not \<^verbatim>\<open>Z_BUF_ERROR\<close>, when an output does not fit a buffer of 0 bytes.
  The parser reads the length of the name, the name, and takes the rest as metadata.
\<close>

definition Z_DATA_ERROR :: int where
  "Z_DATA_ERROR = - 3"

fun rle_expand :: "bytes \<Rightarrow> bytes option" where
  "rle_expand [] = Some []"
| "rle_expand [n] = None"
| "rle_expand (n # v # rest) = map_option (\<lambda>r. replicate (unat n) v @ r) (rle_expand rest)"

definition rle_uncompress :: codec where
  "rle_uncompress dest_len source =
     (case source of
        [] \<Rightarrow> (Z_DATA_ERROR, dest_len, [])
      | m # rest \<Rightarrow>
          if m \<noteq> 0x78 then (Z_DATA_ERROR, dest_len, [])
          else (case rle_expand rest of
                  None \<Rightarrow> (Z_DATA_ERROR, dest_len, [])
                | Some out \<Rightarrow>
                    if length out \<le> unat dest_len then (Z_OK, of_nat (length out), out)
                    else if dest_len = 0 then (Z_DATA_ERROR, dest_len, [])
                    else (Z_BUF_ERROR, dest_len, take (unat dest_len) out)))"

definition rle_compress :: "bytes \<Rightarrow> bytes" where
  "rle_compress b = 0x78 # concat (map (\<lambda>v. [1, v]) b)"

definition prefix_parse :: parser where
  "prefix_parse serialized =
     (case serialized of
        [] \<Rightarrow> (False, \<lparr>name = [], metadata = []\<rparr>)
      | n # rest \<Rightarrow>
          if unat n \<le> length rest
          then (True, \<lparr>name = take (unat n) rest, metadata = drop (unat n) rest\<rparr>)
          else (False, \<lparr>name = [], metadata = []\<rparr>))"

text \<open>
  A variant without the magic byte whose output always ends with a zero byte, and which
  reports \<^verbatim>\<open>Z_BUF_ERROR\<close> also for a buffer of 0 bytes. Its empty source is a valid stream,
  of the one-byte output \<open>[0]\<close>.
\<close>

definition terminated_uncompress :: codec where
  "terminated_uncompress dest_len source =
     (case rle_expand source of
        None \<Rightarrow> (Z_DATA_ERROR, dest_len, [])
      | Some out \<Rightarrow>
          if length (out @ [0]) \<le> unat dest_len
          then (Z_OK, of_nat (length (out @ [0])), out @ [0])
          else (Z_BUF_ERROR, dest_len, take (unat dest_len) (out @ [0])))"

text \<open>
  A codec that answers every source as zlib answers a stream cut off after 20 bytes of
  output: \<^verbatim>\<open>Z_BUF_ERROR\<close> for a buffer of 1 to 20 bytes, which the output fills, and
  \<^verbatim>\<open>Z_DATA_ERROR\<close> for any other.
\<close>

definition cut_off_uncompress :: codec where
  "cut_off_uncompress dest_len source =
     (if dest_len \<noteq> 0 \<and> unat dest_len \<le> 20
      then (Z_BUF_ERROR, dest_len, replicate (unat dest_len) 0x41)
      else (Z_DATA_ERROR, of_nat (min 20 (unat dest_len)),
            replicate (min 20 (unat dest_len)) 0x41))"

text \<open>
  The record of the specification's projection test: the name \<^verbatim>\<open>kernel_x\<close>, and the
  metadata made of the bytes 0 and 1 followed by \<^verbatim>\<open>binarydata\<close>.
\<close>

definition kernel_x :: bytes where
  "kernel_x = [0x6b, 0x65, 0x72, 0x6e, 0x65, 0x6c, 0x5f, 0x78]"

definition binarydata :: bytes where
  "binarydata = [0x00, 0x01, 0x62, 0x69, 0x6e, 0x61, 0x72, 0x79, 0x64, 0x61, 0x74, 0x61]"

section \<open>The retry loop\<close>

subsection \<open>One iteration\<close>

lemma Z_codes [simp]: "Z_BUF_ERROR \<noteq> Z_OK" "Z_OK \<noteq> Z_BUF_ERROR"
  by (simp_all add: Z_OK_def Z_BUF_ERROR_def)

lemma loop_exit_ok:
  "u dl c = (Z_OK, n, w) \<Longrightarrow>
   ZlibUncompress_loop u c d dl = Some (Inr (resize (store w (resize d (unat dl))) (unat n)))"
  by (subst ZlibUncompress_loop.simps) simp

lemma loop_exit_error:
  "u dl c = (ret, n, w) \<Longrightarrow> ret \<noteq> Z_OK \<Longrightarrow> ret \<noteq> Z_BUF_ERROR \<Longrightarrow>
   ZlibUncompress_loop u c d dl =
     Some (Inl (InvalidArgumentError ''Failed to uncompress opaque data.''))"
  by (subst ZlibUncompress_loop.simps) simp

lemma loop_retry:
  "u dl c = (Z_BUF_ERROR, n, w) \<Longrightarrow>
   ZlibUncompress_loop u c d dl = ZlibUncompress_loop u c (store w (resize d (unat dl))) (n * 2)"
  by (subst ZlibUncompress_loop.simps) simp

lemma length_resize [simp]: "length (resize d n) = n"
  by (simp add: resize_def)

lemma length_store [simp]: "length (store w d) = length d"
  by (simp add: store_def)

lemma resize_store: "length w = n \<Longrightarrow> n \<le> length d \<Longrightarrow> resize (store w d) n = w"
  by (simp add: resize_def store_def)

lemma take_store: "length w = n \<Longrightarrow> n \<le> length d \<Longrightarrow> take n (store w d) = w"
  by (simp add: store_def)

subsection \<open>The function and the states of its loop\<close>

lemma loop_state_loop:
  "loop_state u c k = Some (d, dl) \<Longrightarrow> ZlibUncompress u c = ZlibUncompress_loop u c d dl"
proof (induction k arbitrary: d dl)
  case 0
  then show ?case by (simp add: ZlibUncompress_def)
next
  case (Suc k)
  then obtain d0 dl0 where s0: "loop_state u c k = Some (d0, dl0)"
    by (auto split: option.splits)
  obtain ret n w where cd: "u dl0 c = (ret, n, w)" by (cases "u dl0 c")
  from Suc.prems s0 cd
  have r: "ret = Z_BUF_ERROR" "d = store w (resize d0 (unat dl0))" "dl = n * 2"
    by (auto split: if_splits)
  have "ZlibUncompress u c = ZlibUncompress_loop u c d0 dl0" using Suc.IH s0 by simp
  also have "\<dots> = ZlibUncompress_loop u c d dl"
    using cd r by (simp add: loop_retry)
  finally show ?case .
qed

text \<open>A retry that leaves the loop in the state it started from: the loop never exits.\<close>

lemma loop_stuck_aux:
  assumes "ZlibUncompress_loop u c d dl = Some r"
  shows "\<not> (u dl c = (Z_BUF_ERROR, n, w) \<and> n * 2 = dl \<and> store w (resize d (unat dl)) = d)"
proof (rule ZlibUncompress_loop.raw_induct
    [where P = "\<lambda>u c d dl r. \<not> (u dl c = (Z_BUF_ERROR, n, w) \<and> n * 2 = dl \<and>
                                  store w (resize d (unat dl)) = d)", OF _ assms])
  fix f u c d dl r
  assume IH: "\<And>u c d dl r. f u c d dl = Some r \<Longrightarrow>
      \<not> (u dl c = (Z_BUF_ERROR, n, w) \<and> n * 2 = dl \<and> store w (resize d (unat dl)) = d)"
    and body: "(let data1 = resize d (unat dl) in
      case u dl c of
        (ret, dest_len1, written) \<Rightarrow>
          let data2 = store written data1 in
          if ret = Z_OK then Some (Inr (resize data2 (unat dest_len1)))
          else if ret = Z_BUF_ERROR then f u c data2 (dest_len1 * 2)
          else Some (Inl (InvalidArgumentError ''Failed to uncompress opaque data.''))) = Some r"
  show "\<not> (u dl c = (Z_BUF_ERROR, n, w) \<and> n * 2 = dl \<and> store w (resize d (unat dl)) = d)"
  proof
    assume a: "u dl c = (Z_BUF_ERROR, n, w) \<and> n * 2 = dl \<and> store w (resize d (unat dl)) = d"
    with body have "f u c d dl = Some r" by simp
    from IH [OF this] a show False by blast
  qed
qed

lemma loop_stuck:
  assumes "u dl c = (Z_BUF_ERROR, n, w)" "n * 2 = dl" "store w (resize d (unat dl)) = d"
  shows "ZlibUncompress_loop u c d dl = None"
proof (cases "ZlibUncompress_loop u c d dl")
  case None
  then show ?thesis .
next
  case (Some r)
  from loop_stuck_aux [OF this, of n w] assms show ?thesis by blast
qed

subsection \<open>Buffer sizes without wrap-around\<close>

lemma unat_double:
  fixes dl :: uLongf
  assumes "unat dl < 2 ^ 63"
  shows "unat (dl * 2) = 2 * unat dl"
proof -
  have "unat dl * unat (2 :: uLongf) < 2 ^ LENGTH(64)" using assms by simp
  then have "unat (dl * 2) = unat dl * unat (2 :: uLongf)" by (simp only: unat_mult_lem)
  then show ?thesis by simp
qed

lemma unat_of_nat_length:
  "n \<le> 2 ^ 63 \<Longrightarrow> unat (of_nat n :: uLongf) = n"
  by (simp add: unat_of_nat)

lemma unat_initial:
  "5 * n < 2 ^ 64 \<Longrightarrow> unat (5 * of_nat n :: uLongf) = 5 * n"
proof -
  assume a: "5 * n < 2 ^ 64"
  have "(5 * of_nat n :: uLongf) = of_nat (5 * n)" by simp
  then show ?thesis using a by (simp only: unat_of_nat) simp
qed

text \<open>
  5 is odd, so multiplying by 5 loses nothing in 64 bits: the first buffer size of a
  non-empty input is not 0, wrapped or not.
\<close>

lemma five_times_nonzero:
  assumes "n \<noteq> 0" "n < 2 ^ 64"
  shows "(5 * of_nat n :: uLongf) \<noteq> 0"
proof
  assume z: "(5 * of_nat n :: uLongf) = 0"
  have inv: "(14757395258967641293 :: uLongf) * 5 = 1" by simp
  have "(of_nat n :: uLongf) = (14757395258967641293 * 5) * of_nat n"
    by (simp only: inv mult_1)
  also have "\<dots> = 14757395258967641293 * (5 * of_nat n)"
    by (simp only: mult.assoc)
  also have "\<dots> = 0" by (simp only: z mult_zero_right)
  finally have "unat (of_nat n :: uLongf) = 0" by simp
  with assms show False by (simp add: unat_of_nat)
qed

lemma initial_nonzero:
  assumes "c \<noteq> []" "length c < 2 ^ 64"
  shows "(5 * of_nat (length c) :: uLongf) \<noteq> 0"
  using assms by (intro five_times_nonzero) simp_all

subsection \<open>Valid and rejected streams\<close>

lemma decodes_fits:
  "decodes_to u c out \<Longrightarrow> dl \<noteq> 0 \<Longrightarrow> length out \<le> unat dl \<Longrightarrow>
   u dl c = (Z_OK, of_nat (length out), out)"
  unfolding decodes_to_def by (drule spec [of _ dl]) simp

lemma decodes_small:
  assumes "decodes_to u c out" "dl \<noteq> 0" "unat dl < length out"
  obtains w where "u dl c = (Z_BUF_ERROR, dl, w)"
proof -
  from assms have "fst (u dl c) = Z_BUF_ERROR \<and> fst (snd (u dl c)) = dl"
    unfolding decodes_to_def by (drule_tac spec [of _ dl]) simp
  then have "u dl c = (Z_BUF_ERROR, dl, snd (snd (u dl c)))"
    by (cases "u dl c") auto
  then show ?thesis by (rule that)
qed

lemma loop_decodes:
  assumes dec: "decodes_to u c out" and len: "length out \<le> 2 ^ 63"
    and pos: "dl \<noteq> 0"
  shows "ZlibUncompress_loop u c d dl = Some (Inr out)"
  using pos
proof (induction "length out - unat dl" arbitrary: d dl rule: less_induct)
  case less
  show ?case
  proof (cases "length out \<le> unat dl")
    case True
    from decodes_fits [OF dec less.prems True] have "ZlibUncompress_loop u c d dl =
        Some (Inr (resize (store out (resize d (unat dl))) (unat (of_nat (length out) :: uLongf))))"
      by (rule loop_exit_ok)
    also have "\<dots> = Some (Inr out)"
      using True len by (simp add: unat_of_nat_length resize_store)
    finally show ?thesis .
  next
    case False
    then have small: "unat dl < length out" by simp
    from less.prems have pos: "0 < unat dl" by (simp add: unat_gt_0)
    from small len have "unat dl < 2 ^ 63" by simp
    then have dbl: "unat (dl * 2) = 2 * unat dl" by (rule unat_double)
    with pos have "0 < unat (dl * 2)" by simp
    then have nz2: "dl * 2 \<noteq> 0" by (simp add: unat_gt_0)
    from decodes_small [OF dec less.prems small]
    obtain w where cd: "u dl c = (Z_BUF_ERROR, dl, w)" .
    have "ZlibUncompress_loop u c d dl =
        ZlibUncompress_loop u c (store w (resize d (unat dl))) (dl * 2)"
      using cd by (rule loop_retry)
    also have "\<dots> = Some (Inr out)"
    proof (rule less.hyps)
      show "length out - unat (dl * 2) < length out - unat dl"
        using dbl pos small by simp
      show "dl * 2 \<noteq> 0" by (rule nz2)
    qed
    finally show ?thesis .
  qed
qed

lemma loop_rejects:
  assumes "rejects u c"
  shows "ZlibUncompress_loop u c d dl =
           Some (Inl (InvalidArgumentError ''Failed to uncompress opaque data.''))"
proof -
  obtain ret n w where cd: "u dl c = (ret, n, w)" by (cases "u dl c")
  with assms have "ret \<noteq> Z_OK" "ret \<noteq> Z_BUF_ERROR"
    unfolding rejects_def by (auto dest: spec [of _ dl])
  with cd show ?thesis by (rule loop_exit_error)
qed

lemma loop_refuses:
  assumes ref: "refuses_from u c need" and len: "need \<le> 2 ^ 63" and pos: "dl \<noteq> 0"
  shows "ZlibUncompress_loop u c d dl =
           Some (Inl (InvalidArgumentError ''Failed to uncompress opaque data.''))"
  using pos
proof (induction "need - unat dl" arbitrary: d dl rule: less_induct)
  case less
  obtain ret n w where cd: "u dl c = (ret, n, w)" by (cases "u dl c")
  show ?case
  proof (cases "need \<le> unat dl")
    case True
    with ref less.prems cd have "ret \<noteq> Z_OK" "ret \<noteq> Z_BUF_ERROR"
      unfolding refuses_from_def by (auto dest: spec [of _ dl])
    with cd show ?thesis by (rule loop_exit_error)
  next
    case False
    then have small: "unat dl < need" by simp
    with ref less.prems cd have r: "ret = Z_BUF_ERROR" "n = dl"
      unfolding refuses_from_def by (auto dest: spec [of _ dl])
    from less.prems have p: "0 < unat dl" by (simp add: unat_gt_0)
    from small len have "unat dl < 2 ^ 63" by simp
    then have dbl: "unat (dl * 2) = 2 * unat dl" by (rule unat_double)
    with p have "0 < unat (dl * 2)" by simp
    then have nz2: "dl * 2 \<noteq> 0" by (simp add: unat_gt_0)
    have "ZlibUncompress_loop u c d dl =
        ZlibUncompress_loop u c (store w (resize d (unat dl))) (dl * 2)"
      using cd r by (simp add: loop_retry)
    also have "\<dots> = Some (Inl (InvalidArgumentError ''Failed to uncompress opaque data.''))"
    proof (rule less.hyps)
      show "need - unat (dl * 2) < need - unat dl"
        using dbl p small by simp
      show "dl * 2 \<noteq> 0" by (rule nz2)
    qed
    finally show ?thesis .
  qed
qed



subsection \<open>The stand-in codec\<close>

lemma rle_expand_compress: "rle_expand (concat (map (\<lambda>v. [1, v]) b)) = Some b"
  by (induction b) simp_all

lemma rle_decodes: "decodes_to rle_uncompress (rle_compress b) b"
  by (simp add: decodes_to_def rle_uncompress_def rle_compress_def rle_expand_compress)

lemma rle_example_decodes:
  "decodes_to rle_uncompress [0x78, 50, 0x41] (replicate 50 0x41)"
  by (simp add: decodes_to_def rle_uncompress_def)

lemma cut_off_refuses: "refuses_from cut_off_uncompress c 21"
  by (auto simp: refuses_from_def cut_off_uncompress_def Z_DATA_ERROR_def Z_OK_def Z_BUF_ERROR_def)

lemma rle_rejects_empty: "rejects rle_uncompress []"
  by (simp add: rejects_def rle_uncompress_def Z_DATA_ERROR_def Z_OK_def Z_BUF_ERROR_def)

section \<open>The claims\<close>

text \<open>
  C1. Whenever the codec, after any number of buffer-too-small retries, reports success,
  \<open>ZlibUncompress\<close> returns exactly the bytes the codec has produced: the buffer cut to the
  number of bytes the codec reports in \<^verbatim>\<open>dest_len\<close>. The codec is taken at its word: it has
  stored as many bytes as it reports, and no more than the buffer holds. The state
  \<open>loop_state uncompress compressed k\<close> is the one after \<open>k\<close> growth retries, so the result is
  the same when the output exceeds the initial buffer.
\<close>

theorem ZlibUncompress_returns_codec_output:
  assumes "loop_state uncompress compressed k = Some (data, dest_len)"
    and "uncompress dest_len compressed = (Z_OK, dest_len1, written)"
    and "length written = unat dest_len1"
    and "unat dest_len1 \<le> unat dest_len"
  shows "ZlibUncompress uncompress compressed = Some (Inr written) \<and>
         written = take (unat dest_len1) (store written (resize data (unat dest_len)))"
  using assms by (simp add: loop_state_loop loop_exit_ok resize_store take_store)

text \<open>
  A run with two growth retries: the three source bytes give a first buffer of 15 bytes,
  the output has 50 bytes, and the codec succeeds at the third attempt, with 60 bytes.
\<close>

theorem ZlibUncompress_returns_codec_output_witness:
  "loop_state rle_uncompress [0x78, 50, 0x41] 2 = Some (replicate 30 0x41, 60) \<and>
   rle_uncompress 60 [0x78, 50, 0x41] = (Z_OK, 50, replicate 50 0x41) \<and>
   length (replicate 50 (0x41 :: byte)) = unat (50 :: uLongf) \<and>
   unat (50 :: uLongf) \<le> unat (60 :: uLongf) \<and>
   ZlibUncompress rle_uncompress [0x78, 50, 0x41] = Some (Inr (replicate 50 0x41))"
proof -
  have h1: "loop_state rle_uncompress [0x78, 50, 0x41] 2 = Some (replicate 30 0x41, 60)"
    by code_simp
  have h2: "rle_uncompress 60 [0x78, 50, 0x41] = (Z_OK, 50, replicate 50 0x41)"
    by code_simp
  have h3: "length (replicate 50 (0x41 :: byte)) = unat (50 :: uLongf)" by simp
  have h4: "unat (50 :: uLongf) \<le> unat (60 :: uLongf)" by simp
  from ZlibUncompress_returns_codec_output [OF h1 h2 h3 h4] h1 h2 h3 h4
  show ?thesis by blast
qed

text \<open>
  C2. When decompression succeeds and the parser accepts the decompressed bytes,
  \<open>GetTritonKernelCallName\<close> returns the \<open>name\<close> field of the parsed message and
  \<open>GetTritonKernelCallSerializedMetadata\<close> returns its \<open>metadata\<close> field. Each accessor
  is a function of the codec, the parser and the input alone: neither result depends on
  whether, or in which order, the other accessor has been called.
\<close>

theorem accessors_return_fields:
  assumes "ZlibUncompress uncompress opaque = Some (Inr serialized)"
    and "ParseFromString serialized = (True, proto)"
  shows "GetTritonKernelCallName uncompress ParseFromString opaque = Some (Inr (name proto)) \<and>
         GetTritonKernelCallSerializedMetadata uncompress ParseFromString opaque =
           Some (Inr (metadata proto))"
  using assms
  by (simp add: GetTritonKernelCallName_def GetTritonKernelCallSerializedMetadata_def
      JAX_ASSIGN_OR_RETURN_def)

theorem accessors_return_fields_witness:
  "ZlibUncompress rle_uncompress (rle_compress (8 # kernel_x @ binarydata)) =
     Some (Inr (8 # kernel_x @ binarydata)) \<and>
   prefix_parse (8 # kernel_x @ binarydata) =
     (True, \<lparr>name = kernel_x, metadata = binarydata\<rparr>) \<and>
   GetTritonKernelCallName rle_uncompress prefix_parse
     (rle_compress (8 # kernel_x @ binarydata)) = Some (Inr kernel_x) \<and>
   GetTritonKernelCallSerializedMetadata rle_uncompress prefix_parse
     (rle_compress (8 # kernel_x @ binarydata)) = Some (Inr binarydata)"
proof -
  have h1: "ZlibUncompress rle_uncompress (rle_compress (8 # kernel_x @ binarydata)) =
     Some (Inr (8 # kernel_x @ binarydata))"
    by code_simp
  have h2: "prefix_parse (8 # kernel_x @ binarydata) =
     (True, \<lparr>name = kernel_x, metadata = binarydata\<rparr>)"
    by (simp add: prefix_parse_def kernel_x_def)
  from accessors_return_fields [where ParseFromString = prefix_parse, OF h1 h2] h1 h2
  show ?thesis by simp
qed

text \<open>
  C3. When the codec, at any iteration of the loop, reports a failure other than
  \<^verbatim>\<open>Z_BUF_ERROR\<close>, \<open>ZlibUncompress\<close> returns the invalid-argument status with the message
  "Failed to uncompress opaque data." and the loop has no further iteration, whatever the
  codec would answer to any other call. A further iteration is entered only after
  \<^verbatim>\<open>Z_BUF_ERROR\<close>.
\<close>

theorem ZlibUncompress_other_failure_stops:
  assumes "loop_state uncompress compressed k = Some (data, dest_len)"
    and "uncompress dest_len compressed = (ret, dest_len1, written)"
  shows "(ret \<noteq> Z_OK \<and> ret \<noteq> Z_BUF_ERROR \<longrightarrow>
            ZlibUncompress uncompress compressed =
              Some (Inl (Status kInvalidArgument ''Failed to uncompress opaque data.'')) \<and>
            loop_state uncompress compressed (Suc k) = None) \<and>
         (loop_state uncompress compressed (Suc k) \<noteq> None \<longrightarrow> ret = Z_BUF_ERROR)"
  using assms
  by (auto simp: loop_state_loop loop_exit_error InvalidArgumentError_def)

text \<open>
  A source without the magic byte is refused at the first attempt; a source whose output
  does not fit the first buffer is retried.
\<close>

theorem ZlibUncompress_other_failure_stops_witness:
  "loop_state rle_uncompress [0x79, 50, 0x41] 0 = Some ([], 15) \<and>
   rle_uncompress 15 [0x79, 50, 0x41] = (Z_DATA_ERROR, 15, []) \<and>
   Z_DATA_ERROR \<noteq> Z_OK \<and> Z_DATA_ERROR \<noteq> Z_BUF_ERROR \<and>
   ZlibUncompress rle_uncompress [0x79, 50, 0x41] =
     Some (Inl (Status kInvalidArgument ''Failed to uncompress opaque data.'')) \<and>
   loop_state rle_uncompress [0x79, 50, 0x41] 1 = None \<and>
   loop_state rle_uncompress [0x78, 50, 0x41] 0 = Some ([], 15) \<and>
   loop_state rle_uncompress [0x78, 50, 0x41] 1 \<noteq> None \<and>
   rle_uncompress 15 [0x78, 50, 0x41] = (Z_BUF_ERROR, 15, replicate 15 0x41)"
proof -
  have a1: "loop_state rle_uncompress [0x79, 50, 0x41] 0 = Some ([], 15)" by simp
  have a2: "rle_uncompress 15 [0x79, 50, 0x41] = (Z_DATA_ERROR, 15, [])"
    by (simp add: rle_uncompress_def)
  have a3: "Z_DATA_ERROR \<noteq> Z_OK \<and> Z_DATA_ERROR \<noteq> Z_BUF_ERROR"
    by (simp add: Z_DATA_ERROR_def Z_OK_def Z_BUF_ERROR_def)
  have b1: "loop_state rle_uncompress [0x78, 50, 0x41] 0 = Some ([], 15)" by simp
  have b2: "rle_uncompress 15 [0x78, 50, 0x41] = (Z_BUF_ERROR, 15, replicate 15 0x41)"
    by code_simp
  have b3: "loop_state rle_uncompress [0x78, 50, 0x41] 1 \<noteq> None" by code_simp
  from ZlibUncompress_other_failure_stops [OF a1 a2]
    ZlibUncompress_other_failure_stops [OF b1 b2] a1 a2 a3 b1 b2 b3
  show ?thesis by simp
qed



text \<open>
  C5, as stated, fails: the status that the accessors return when the parser refuses the
  decompressed bytes has the same code, \<^verbatim>\<open>kInvalidArgument\<close>, as the status of a failed
  decompression. Here the first input decompresses to bytes that the parser refuses, and
  the second is refused by the codec.
\<close>

theorem parse_failure_code_counterexample:
  "ZlibUncompress rle_uncompress (rle_compress [9, 0x6b]) = Some (Inr [9, 0x6b]) \<and>
   \<not> fst (prefix_parse [9, 0x6b]) \<and>
   GetTritonKernelCallName rle_uncompress prefix_parse (rle_compress [9, 0x6b]) =
     Some (Inl (Status kInvalidArgument ''Failed to parse serialized data.'')) \<and>
   GetTritonKernelCallName rle_uncompress prefix_parse [0x79] =
     Some (Inl (Status kInvalidArgument ''Failed to uncompress opaque data.'')) \<and>
   \<not> code (Status kInvalidArgument ''Failed to parse serialized data.'') \<noteq>
       code (Status kInvalidArgument ''Failed to uncompress opaque data.'')"
proof -
  have "ZlibUncompress rle_uncompress (rle_compress [9, 0x6b]) = Some (Inr [9, 0x6b])"
    by code_simp
  moreover have "\<not> fst (prefix_parse [9, 0x6b])"
    by (simp add: prefix_parse_def)
  moreover have
    "GetTritonKernelCallName rle_uncompress prefix_parse (rle_compress [9, 0x6b]) =
       Some (Inl (Status kInvalidArgument ''Failed to parse serialized data.''))"
    by code_simp
  moreover have "GetTritonKernelCallName rle_uncompress prefix_parse [0x79] =
      Some (Inl (Status kInvalidArgument ''Failed to uncompress opaque data.''))"
    by code_simp
  ultimately show ?thesis by simp
qed

text \<open>
  C5, amended. When decompression succeeds and the parser refuses the decompressed bytes,
  both accessors return the invalid-argument status with the message "Failed to parse
  serialized data.". Its code is the code of the status of a failed decompression; the two
  differ in their message only.
\<close>

theorem accessors_parse_failure:
  assumes "ZlibUncompress uncompress opaque = Some (Inr serialized)"
    and "ParseFromString serialized = (False, proto)"
  shows "GetTritonKernelCallName uncompress ParseFromString opaque =
           Some (Inl (Status kInvalidArgument ''Failed to parse serialized data.'')) \<and>
         GetTritonKernelCallSerializedMetadata uncompress ParseFromString opaque =
           Some (Inl (Status kInvalidArgument ''Failed to parse serialized data.'')) \<and>
         code (Status kInvalidArgument ''Failed to parse serialized data.'') =
           code (InvalidArgumentError ''Failed to uncompress opaque data.'') \<and>
         message (Status kInvalidArgument ''Failed to parse serialized data.'') \<noteq>
           message (InvalidArgumentError ''Failed to uncompress opaque data.'')"
  using assms
  by (simp add: GetTritonKernelCallName_def GetTritonKernelCallSerializedMetadata_def
      JAX_ASSIGN_OR_RETURN_def InvalidArgumentError_def)

theorem accessors_parse_failure_witness:
  "ZlibUncompress rle_uncompress (rle_compress [9, 0x6b]) = Some (Inr [9, 0x6b]) \<and>
   prefix_parse [9, 0x6b] = (False, \<lparr>name = [], metadata = []\<rparr>) \<and>
   GetTritonKernelCallName rle_uncompress prefix_parse (rle_compress [9, 0x6b]) =
     Some (Inl (Status kInvalidArgument ''Failed to parse serialized data.'')) \<and>
   GetTritonKernelCallSerializedMetadata rle_uncompress prefix_parse (rle_compress [9, 0x6b]) =
     Some (Inl (Status kInvalidArgument ''Failed to parse serialized data.''))"
proof -
  have h1: "ZlibUncompress rle_uncompress (rle_compress [9, 0x6b]) = Some (Inr [9, 0x6b])"
    by code_simp
  have h2: "prefix_parse [9, 0x6b] = (False, \<lparr>name = [], metadata = []\<rparr>)"
    by (simp add: prefix_parse_def)
  from accessors_parse_failure [where ParseFromString = prefix_parse, OF h1 h2] h1 h2
  show ?thesis by simp
qed

text \<open>
  C6. When \<open>ZlibUncompress\<close> fails, each accessor returns the status of \<open>ZlibUncompress\<close>
  itself, unchanged. When \<open>ZlibUncompress\<close> succeeds and the parser refuses the bytes, each
  accessor returns the status of that failure. An accessor has no loop of its own: it
  returns whenever \<open>ZlibUncompress\<close> does.
\<close>

theorem accessors_propagate_errors:
  "(ZlibUncompress uncompress opaque = Some (Inl status) \<longrightarrow>
      GetTritonKernelCallName uncompress ParseFromString opaque = Some (Inl status) \<and>
      GetTritonKernelCallSerializedMetadata uncompress ParseFromString opaque =
        Some (Inl status)) \<and>
   (ZlibUncompress uncompress opaque = Some (Inr serialized) \<and>
    \<not> fst (ParseFromString serialized) \<longrightarrow>
      GetTritonKernelCallName uncompress ParseFromString opaque =
        Some (Inl (InvalidArgumentError ''Failed to parse serialized data.'')) \<and>
      GetTritonKernelCallSerializedMetadata uncompress ParseFromString opaque =
        Some (Inl (InvalidArgumentError ''Failed to parse serialized data.''))) \<and>
   (ZlibUncompress uncompress opaque \<noteq> None \<longrightarrow>
      GetTritonKernelCallName uncompress ParseFromString opaque \<noteq> None \<and>
      GetTritonKernelCallSerializedMetadata uncompress ParseFromString opaque \<noteq> None)"
  by (auto simp: GetTritonKernelCallName_def GetTritonKernelCallSerializedMetadata_def
      JAX_ASSIGN_OR_RETURN_def split: prod.splits)

theorem accessors_propagate_errors_witness:
  "ZlibUncompress rle_uncompress [0x79] =
     Some (Inl (InvalidArgumentError ''Failed to uncompress opaque data.'')) \<and>
   GetTritonKernelCallName rle_uncompress prefix_parse [0x79] =
     Some (Inl (InvalidArgumentError ''Failed to uncompress opaque data.'')) \<and>
   GetTritonKernelCallSerializedMetadata rle_uncompress prefix_parse [0x79] =
     Some (Inl (InvalidArgumentError ''Failed to uncompress opaque data.'')) \<and>
   ZlibUncompress rle_uncompress (rle_compress [9, 0x6b]) = Some (Inr [9, 0x6b]) \<and>
   \<not> fst (prefix_parse [9, 0x6b]) \<and>
   GetTritonKernelCallName rle_uncompress prefix_parse (rle_compress [9, 0x6b]) =
     Some (Inl (InvalidArgumentError ''Failed to parse serialized data.'')) \<and>
   GetTritonKernelCallSerializedMetadata rle_uncompress prefix_parse (rle_compress [9, 0x6b]) =
     Some (Inl (InvalidArgumentError ''Failed to parse serialized data.''))"
proof -
  have a: "ZlibUncompress rle_uncompress [0x79] =
     Some (Inl (InvalidArgumentError ''Failed to uncompress opaque data.''))"
    by code_simp
  have b: "ZlibUncompress rle_uncompress (rle_compress [9, 0x6b]) = Some (Inr [9, 0x6b])"
    by code_simp
  have c: "\<not> fst (prefix_parse [9, 0x6b])"
    by (simp add: prefix_parse_def)
  from accessors_propagate_errors [of rle_uncompress "[0x79]" _ prefix_parse] a
  have "GetTritonKernelCallName rle_uncompress prefix_parse [0x79] =
     Some (Inl (InvalidArgumentError ''Failed to uncompress opaque data.'')) \<and>
   GetTritonKernelCallSerializedMetadata rle_uncompress prefix_parse [0x79] =
     Some (Inl (InvalidArgumentError ''Failed to uncompress opaque data.''))"
    by blast
  moreover
  from accessors_propagate_errors
    [of rle_uncompress "rle_compress [9, 0x6b]" _ prefix_parse "[9, 0x6b]"] b c
  have "GetTritonKernelCallName rle_uncompress prefix_parse (rle_compress [9, 0x6b]) =
     Some (Inl (InvalidArgumentError ''Failed to parse serialized data.'')) \<and>
   GetTritonKernelCallSerializedMetadata rle_uncompress prefix_parse (rle_compress [9, 0x6b]) =
     Some (Inl (InvalidArgumentError ''Failed to parse serialized data.''))"
    by blast
  ultimately show ?thesis using a b c by simp
qed

text \<open>
  C7, as stated, fails on the empty input: the first buffer has \<open>5 * 0 = 0\<close> bytes, which is
  not a positive size. (The stand-in, like zlib, refuses the empty source.)
\<close>

theorem initial_buffer_empty_input_counterexample:
  "loop_state rle_uncompress [] 0 = Some ([], 0) \<and>
   length (resize [] (unat (5 * of_nat (length ([] :: bytes)) :: uLongf))) = 0 \<and>
   \<not> 0 < unat (5 * of_nat (length ([] :: bytes)) :: uLongf) \<and>
   ZlibUncompress rle_uncompress [] =
     Some (Inl (InvalidArgumentError ''Failed to uncompress opaque data.''))"
proof -
  have "ZlibUncompress rle_uncompress [] =
      Some (Inl (InvalidArgumentError ''Failed to uncompress opaque data.''))"
    unfolding ZlibUncompress_def using rle_rejects_empty by (rule loop_rejects)
  then show ?thesis by simp
qed

text \<open>
  C7, amended. For every input the first attempt of \<open>ZlibUncompress\<close> calls the codec with
  \<^verbatim>\<open>dest_len\<close> equal to 5 times the input length in 64-bit arithmetic, on a zero-filled
  buffer of that many bytes, and the answer to that call decides how the function goes on;
  the size is exactly \<open>5 * length compressed\<close> when that is below \<open>2 ^ 64\<close>, positive when
  the input is not empty and 0 when it is. The size only sets the number of retries, never
  the result: a non-empty input gives the result of \<open>ZlibUncompress\<close> from any positive
  start size, when it is a valid stream (of an output of at most \<open>2 ^ 63\<close> bytes) and when
  it is cut off or corrupt; and a source that the codec refuses at every size, as zlib
  refuses the empty source, gives it from any start size.
\<close>

theorem initial_buffer_five_times_input:
  "ZlibUncompress uncompress compressed =
     (case uncompress (5 * of_nat (length compressed)) compressed of
        (ret, dest_len1, written) \<Rightarrow>
          if ret = Z_OK
          then Some (Inr (resize
                 (store written (replicate (unat (5 * of_nat (length compressed) :: uLongf)) 0))
                 (unat dest_len1)))
          else if ret = Z_BUF_ERROR
          then ZlibUncompress_loop uncompress compressed
                 (store written (replicate (unat (5 * of_nat (length compressed) :: uLongf)) 0))
                 (dest_len1 * 2)
          else Some (Inl (InvalidArgumentError ''Failed to uncompress opaque data.''))) \<and>
   (5 * length compressed < 2 ^ 64 \<longrightarrow>
      unat (5 * of_nat (length compressed) :: uLongf) = 5 * length compressed) \<and>
   (compressed \<noteq> [] \<and> length compressed < 2 ^ 64 \<longrightarrow>
      0 < unat (5 * of_nat (length compressed) :: uLongf)) \<and>
   (compressed = [] \<longrightarrow> unat (5 * of_nat (length compressed) :: uLongf) = 0) \<and>
   (\<forall>h out. h \<noteq> 0 \<and> compressed \<noteq> [] \<and> length compressed < 2 ^ 64 \<and>
           decodes_to uncompress compressed out \<and> length out \<le> 2 ^ 63 \<longrightarrow>
        ZlibUncompress_loop uncompress compressed [] h =
          ZlibUncompress uncompress compressed) \<and>
   (\<forall>h need. h \<noteq> 0 \<and> compressed \<noteq> [] \<and> length compressed < 2 ^ 64 \<and>
           refuses_from uncompress compressed need \<and> need \<le> 2 ^ 63 \<longrightarrow>
        ZlibUncompress_loop uncompress compressed [] h =
          ZlibUncompress uncompress compressed) \<and>
   (\<forall>h. rejects uncompress compressed \<longrightarrow>
        ZlibUncompress_loop uncompress compressed [] h =
          ZlibUncompress uncompress compressed)"
proof (intro conjI allI impI)
  show "ZlibUncompress uncompress compressed =
     (case uncompress (5 * of_nat (length compressed)) compressed of
        (ret, dest_len1, written) \<Rightarrow>
          if ret = Z_OK
          then Some (Inr (resize
                 (store written (replicate (unat (5 * of_nat (length compressed) :: uLongf)) 0))
                 (unat dest_len1)))
          else if ret = Z_BUF_ERROR
          then ZlibUncompress_loop uncompress compressed
                 (store written (replicate (unat (5 * of_nat (length compressed) :: uLongf)) 0))
                 (dest_len1 * 2)
          else Some (Inl (InvalidArgumentError ''Failed to uncompress opaque data.'')))"
    unfolding ZlibUncompress_def
    by (subst ZlibUncompress_loop.simps) (simp add: resize_def split: prod.splits)
  show "unat (5 * of_nat (length compressed) :: uLongf) = 5 * length compressed"
    if "5 * length compressed < 2 ^ 64"
    using that by (rule unat_initial)
  show "0 < unat (5 * of_nat (length compressed) :: uLongf)"
    if "compressed \<noteq> [] \<and> length compressed < 2 ^ 64"
    using that initial_nonzero [of compressed] by (simp add: unat_gt_0)
  show "unat (5 * of_nat (length compressed) :: uLongf) = 0" if "compressed = []"
    using that by simp
next
  fix h :: uLongf and out
  assume a: "h \<noteq> 0 \<and> compressed \<noteq> [] \<and> length compressed < 2 ^ 64 \<and>
           decodes_to uncompress compressed out \<and> length out \<le> 2 ^ 63"
  then have iz: "(5 * of_nat (length compressed) :: uLongf) \<noteq> 0"
    by (simp add: initial_nonzero)
  from a have "ZlibUncompress_loop uncompress compressed [] h = Some (Inr out)"
    by (intro loop_decodes) simp_all
  moreover from a iz have "ZlibUncompress uncompress compressed = Some (Inr out)"
    unfolding ZlibUncompress_def by (intro loop_decodes) simp_all
  ultimately show "ZlibUncompress_loop uncompress compressed [] h =
      ZlibUncompress uncompress compressed"
    by simp
next
  fix h :: uLongf and need
  assume a: "h \<noteq> 0 \<and> compressed \<noteq> [] \<and> length compressed < 2 ^ 64 \<and>
           refuses_from uncompress compressed need \<and> need \<le> 2 ^ 63"
  then have iz: "(5 * of_nat (length compressed) :: uLongf) \<noteq> 0"
    by (simp add: initial_nonzero)
  from a have "ZlibUncompress_loop uncompress compressed [] h =
      Some (Inl (InvalidArgumentError ''Failed to uncompress opaque data.''))"
    by (intro loop_refuses [of _ _ need]) simp_all
  moreover from a iz have "ZlibUncompress uncompress compressed =
      Some (Inl (InvalidArgumentError ''Failed to uncompress opaque data.''))"
    unfolding ZlibUncompress_def by (intro loop_refuses [of _ _ need]) simp_all
  ultimately show "ZlibUncompress_loop uncompress compressed [] h =
      ZlibUncompress uncompress compressed"
    by simp
next
  fix h :: uLongf
  assume "rejects uncompress compressed"
  then show "ZlibUncompress_loop uncompress compressed [] h =
      ZlibUncompress uncompress compressed"
    by (simp add: ZlibUncompress_def loop_rejects)
qed

text \<open>
  The run of C1 again, started with 3 bytes instead of 15: five retries instead of two, and
  the same 50 bytes. A stream cut off after 20 bytes of output is refused, once the buffer
  is larger, started with 3 bytes as with 15. The empty source is refused from 4 bytes as
  from 0.
\<close>

theorem initial_buffer_five_times_input_witness:
  "5 * length [0x78, 50, 0x41 :: byte] < (2 :: nat) ^ 64 \<and>
   unat (5 * of_nat (length [0x78, 50, 0x41 :: byte]) :: uLongf) = 15 \<and>
   0 < unat (5 * of_nat (length [0x78, 50, 0x41 :: byte]) :: uLongf) \<and>
   unat (5 * of_nat (length ([] :: bytes)) :: uLongf) = 0 \<and>
   decodes_to rle_uncompress [0x78, 50, 0x41] (replicate 50 0x41) \<and>
   ZlibUncompress_loop rle_uncompress [0x78, 50, 0x41] [] 3 =
     ZlibUncompress rle_uncompress [0x78, 50, 0x41] \<and>
   ZlibUncompress_loop rle_uncompress [0x78, 50, 0x41] [] 3 = Some (Inr (replicate 50 0x41)) \<and>
   refuses_from cut_off_uncompress [1, 2, 3] 21 \<and>
   ZlibUncompress_loop cut_off_uncompress [1, 2, 3] [] 3 =
     ZlibUncompress cut_off_uncompress [1, 2, 3] \<and>
   ZlibUncompress cut_off_uncompress [1, 2, 3] =
     Some (Inl (InvalidArgumentError ''Failed to uncompress opaque data.'')) \<and>
   rejects rle_uncompress [] \<and>
   ZlibUncompress_loop rle_uncompress [] [] 4 = ZlibUncompress rle_uncompress [] \<and>
   ZlibUncompress_loop rle_uncompress [] [] 4 =
     Some (Inl (InvalidArgumentError ''Failed to uncompress opaque data.''))"
proof -
  have a: "5 * length [0x78, 50, 0x41 :: byte] < (2 :: nat) ^ 64"
    "[0x78, 50, 0x41 :: byte] \<noteq> [] \<and> length [0x78, 50, 0x41 :: byte] < (2 :: nat) ^ 64"
    "(3 :: uLongf) \<noteq> 0" by simp_all
  have e: "ZlibUncompress_loop rle_uncompress [0x78, 50, 0x41] [] 3 =
      Some (Inr (replicate 50 0x41))" by code_simp
  have f: "ZlibUncompress_loop rle_uncompress [] [] 4 =
     Some (Inl (InvalidArgumentError ''Failed to uncompress opaque data.''))" by code_simp
  have l: "length (replicate 50 (0x41 :: byte)) \<le> 2 ^ 63" by simp
  note t = initial_buffer_five_times_input [of rle_uncompress "[0x78, 50, 0x41]"]
  note t' = initial_buffer_five_times_input [of rle_uncompress "[]"]
  from t a
  have "unat (5 * of_nat (length [0x78, 50, 0x41 :: byte]) :: uLongf) =
      5 * length [0x78, 50, 0x41 :: byte] \<and>
      0 < unat (5 * of_nat (length [0x78, 50, 0x41 :: byte]) :: uLongf)"
    by blast
  moreover from t rle_example_decodes a l
  have "ZlibUncompress_loop rle_uncompress [0x78, 50, 0x41] [] 3 =
        ZlibUncompress rle_uncompress [0x78, 50, 0x41]"
    by blast
  moreover from t' rle_rejects_empty
  have "ZlibUncompress_loop rle_uncompress [] [] 4 = ZlibUncompress rle_uncompress []"
    by blast
  moreover from initial_buffer_five_times_input [of cut_off_uncompress "[1, 2, 3]"]
    cut_off_refuses [of "[1, 2, 3]"]
  have "ZlibUncompress_loop cut_off_uncompress [1, 2, 3] [] 3 =
     ZlibUncompress cut_off_uncompress [1, 2, 3]"
    by (elim conjE allE [of _ 3] allE [of _ 21]) simp
  moreover have "ZlibUncompress cut_off_uncompress [1, 2, 3] =
     Some (Inl (InvalidArgumentError ''Failed to uncompress opaque data.''))"
    by code_simp
  moreover from t' have "unat (5 * of_nat (length ([] :: bytes)) :: uLongf) = 0"
    by blast
  ultimately show ?thesis
    using a e f rle_example_decodes rle_rejects_empty cut_off_refuses [of "[1, 2, 3]"]
    by simp
qed

text \<open>
  C9. For a codec whose \<^verbatim>\<open>uncompress\<close> honours its contract on the compression of \<open>b\<close>,
  \<open>ZlibUncompress\<close> applied to the compression of \<open>b\<close> returns \<open>b\<close>, byte for byte, the empty
  \<open>b\<close> included. The sizes are those the types allow (an output that a \<^verbatim>\<open>std::string\<close> can
  hold, at most \<open>2 ^ 63\<close> bytes, and an input whose \<^verbatim>\<open>size_t\<close> length is below \<open>2 ^ 64\<close>),
  and, as with zlib, no compressed stream is empty.
\<close>

theorem ZlibUncompress_round_trip:
  assumes "decodes_to uncompress (compress b) b"
    and "length b \<le> 2 ^ 63"
    and "compress b \<noteq> []"
    and "length (compress b) < 2 ^ 64"
  shows "ZlibUncompress uncompress (compress b) = Some (Inr b)"
proof -
  from assms(3,4) have "(5 * of_nat (length (compress b)) :: uLongf) \<noteq> 0"
    by (rule initial_nonzero)
  with assms(1,2) show ?thesis
    unfolding ZlibUncompress_def by (rule loop_decodes)
qed

theorem ZlibUncompress_round_trip_witness:
  "decodes_to rle_uncompress (rle_compress []) [] \<and> rle_compress [] \<noteq> [] \<and>
   ZlibUncompress rle_uncompress (rle_compress []) = Some (Inr []) \<and>
   decodes_to rle_uncompress (rle_compress kernel_x) kernel_x \<and>
   length kernel_x \<le> 2 ^ 63 \<and> rle_compress kernel_x \<noteq> [] \<and>
   length (rle_compress kernel_x) < 2 ^ 64 \<and>
   ZlibUncompress rle_uncompress (rle_compress kernel_x) = Some (Inr kernel_x)"
proof -
  have a: "length ([] :: bytes) \<le> 2 ^ 63" "rle_compress [] \<noteq> []"
    "length (rle_compress []) < 2 ^ 64"
    by (simp_all add: rle_compress_def)
  have b: "length kernel_x \<le> 2 ^ 63" "rle_compress kernel_x \<noteq> []"
    "length (rle_compress kernel_x) < 2 ^ 64"
    by (simp_all add: rle_compress_def kernel_x_def)
  from ZlibUncompress_round_trip [of rle_uncompress rle_compress "[]", OF rle_decodes a]
    ZlibUncompress_round_trip [of rle_uncompress rle_compress kernel_x, OF rle_decodes b]
    rle_decodes [of "[]"] rle_decodes [of kernel_x] a b
  show ?thesis by simp
qed

text \<open>
  C10. For the empty input the first buffer size is \<open>5 * 0 = 0\<close>. If the codec reports
  \<^verbatim>\<open>Z_BUF_ERROR\<close> for the empty source and a buffer of size 0, leaving \<^verbatim>\<open>dest_len\<close> at 0,
  then doubling keeps the size at 0: every iteration starts with the empty buffer and size
  0, and the loop never exits.
\<close>

theorem ZlibUncompress_empty_input_stuck:
  assumes "uncompress 0 [] = (Z_BUF_ERROR, 0, written)"
  shows "(5 * of_nat (length ([] :: bytes)) :: uLongf) = 0 \<and>
         (\<forall>k. loop_state uncompress [] k = Some ([], 0)) \<and>
         ZlibUncompress uncompress [] = None"
proof (intro conjI)
  show "(5 * of_nat (length ([] :: bytes)) :: uLongf) = 0" by simp
  show "\<forall>k. loop_state uncompress [] k = Some ([], 0)"
  proof
    fix k show "loop_state uncompress [] k = Some ([], 0)"
      by (induction k) (simp_all add: assms resize_def store_def)
  qed
  show "ZlibUncompress uncompress [] = None"
    unfolding ZlibUncompress_def using assms
    by (intro loop_stuck [where n = 0 and w = written]) (simp_all add: resize_def store_def)
qed

theorem ZlibUncompress_empty_input_stuck_witness:
  "terminated_uncompress 0 [] = (Z_BUF_ERROR, 0, []) \<and>
   loop_state terminated_uncompress [] 3 = Some ([], 0) \<and>
   ZlibUncompress terminated_uncompress [] = None"
proof -
  have h: "terminated_uncompress 0 [] = (Z_BUF_ERROR, 0, [])"
    by (simp add: terminated_uncompress_def)
  from ZlibUncompress_empty_input_stuck [of terminated_uncompress "[]", OF h] h
  show ?thesis by blast
qed

end
